theory Spec2Isabelle
  imports Complex_Main
begin

section \<open>The diagram renderer of docs/diagrams/high_level_architecture.py\<close>

text \<open>
  The script is a straight-line sequence of calls into a plotting library. Each call
  mutates the current figure, and the last one writes a file. The embedding has
  \<^item> one record per drawing primitive, holding the arguments of the call that creates it;
  \<^item> a datatype \<open>call\<close> with one constructor per library function the script uses;
  \<^item> the figure, the filesystem and the availability of the plotting backend as explicit
    state, read and changed by \<open>exec\<close>;
  \<^item> the script itself as the list of its calls, in source order, run by \<open>run\<close>, which
    stops at the first call that raises.

  Coordinates are the decimal literals of the source, as rationals. Every coordinate of
  a rectangle is a multiple of 1/4, which binary floating point represents exactly, so
  the sums \<open>x + width\<close> and \<open>y + height\<close> are the same in the model and in Python.
\<close>

subsection \<open>Drawing primitives\<close>

text \<open>\<^verbatim>\<open>patches.Rectangle((x, y), width, height, fill=, alpha=, facecolor=, edgecolor=, linewidth=, zorder=)\<close>\<close>

record rectangle =
  xy :: "rat \<times> rat"
  width :: rat
  height :: rat
  fill :: bool
  alpha :: rat
  facecolor :: string
  edgecolor :: string
  linewidth :: rat
  zorder :: int

text \<open>\<^verbatim>\<open>ax.text(x, y, s, fontsize=, fontweight=, ha=, va=)\<close> and \<^verbatim>\<open>plt.figtext\<close>, which takes the
  same arguments; a keyword is \<open>None\<close> where the call does not pass it.\<close>

record label =
  pos :: "rat \<times> rat"
  s :: string
  fontsize :: rat
  fontweight :: "string option"
  ha :: "string option"
  va :: "string option"

text \<open>\<^verbatim>\<open>ax.arrow(x, y, dx, dy, head_width=, head_length=, fc=, ec=, zorder=)\<close>\<close>

record arrow =
  start :: "rat \<times> rat"
  dx :: rat
  dy :: rat
  head_width :: rat
  head_length :: rat
  fc :: string
  ec :: string
  arrow_zorder :: int

text \<open>\<^verbatim>\<open>patches.Patch(facecolor=, edgecolor=, label=)\<close>, a legend handle.\<close>

record patch =
  patch_facecolor :: string
  patch_edgecolor :: string
  patch_label :: string

text \<open>\<^verbatim>\<open>ax.legend(handles=, loc=, bbox_to_anchor=, fancybox=, shadow=, ncol=)\<close>\<close>

record legend =
  handles :: "patch list"
  loc :: string
  bbox_to_anchor :: "rat \<times> rat"
  fancybox :: bool
  shadow :: bool
  ncol :: nat

text \<open>\<^verbatim>\<open>plt.title(label, fontsize=, pad=)\<close>\<close>

record title =
  title_label :: string
  title_fontsize :: rat
  pad :: rat

subsection \<open>The figure\<close>

text \<open>
  What the calls of the script accumulate in the current figure and its single axes.
  Lists are in insertion order. A field is \<open>None\<close> until the call that sets it has run.
\<close>

record figure =
  figsize :: "rat \<times> rat"
  axes_facecolor :: "string option"
  patches :: "rectangle list"
  texts :: "label list"
  arrows :: "arrow list"
  xticks :: "rat list option"
  yticks :: "rat list option"
  xlim :: "(rat \<times> rat) option"
  ylim :: "(rat \<times> rat) option"
  axes_legend :: "legend option"
  axes_title :: "title option"
  figtexts :: "label list"
  tight :: bool

text \<open>The state before \<^verbatim>\<open>plt.subplots\<close>: the library's default figure size, nothing drawn.\<close>

definition new_figure :: figure where
  "new_figure = \<lparr>figsize = (32 / 5, 24 / 5), axes_facecolor = None, patches = [], texts = [],
     arrows = [], xticks = None, yticks = None, xlim = None, ylim = None,
     axes_legend = None, axes_title = None, figtexts = [], tight = False\<rparr>"

subsection \<open>The filesystem\<close>

text \<open>
  A written image file is represented by what determines its bytes: the format, the
  resolution, the cropping mode and the figure that was rasterised.
\<close>

record image =
  img_format :: string
  img_dpi :: nat
  img_bbox_inches :: "string option"
  img_figure :: figure

text \<open>
  The part of the filesystem the script depends on: the directories that exist, the
  regular files, and the paths, of directories or of files, on which the process has no
  write permission. The model covers the existence, the kind and the write permission of
  the output path and of the directories above it. It takes for granted that the process
  may search those directories and that the medium has room for the file.
\<close>

record filesystem =
  dirs :: "string set"
  files :: "string \<rightharpoonup> image"
  read_only :: "string set"

text \<open>The exceptions that end a run: four from opening the file, one from the backend.\<close>

datatype error =
    FileNotFoundError
  | NotADirectoryError
  | IsADirectoryError
  | PermissionError
  | ImportError

text \<open>The directory part of a path: everything before the last slash.\<close>

definition dirname :: "string \<Rightarrow> string" where
  "dirname p = rev (drop 1 (dropWhile (\<lambda>c. c \<noteq> CHR ''/'') (rev p)))"

definition basename :: "string \<Rightarrow> string" where
  "basename p = rev (takeWhile (\<lambda>c. c \<noteq> CHR ''/'') (rev p))"

text \<open>
  \<^verbatim>\<open>savefig\<close> is called without \<^verbatim>\<open>format=\<close>, so the library takes the format from the
  file name's extension, and its default \<^verbatim>\<open>png\<close> when there is none.
\<close>

definition format_of :: "string \<Rightarrow> string" where
  "format_of p =
     (let b = basename p
      in if CHR ''.'' \<in> set b then rev (takeWhile (\<lambda>c. c \<noteq> CHR ''.'') (rev b)) else ''png'')"

text \<open>
  The directories above a normalised path, outermost first: the prefixes that end before
  a slash. The root is left out, since it always exists.
\<close>

fun prefixes :: "string \<Rightarrow> string \<Rightarrow> string list" where
  "prefixes acc [] = []"
| "prefixes acc (c # cs) =
     (if c = CHR ''/'' \<and> acc \<noteq> [] then [acc] else []) @ prefixes (acc @ [c]) cs"

definition ancestors :: "string \<Rightarrow> string list" where
  "ancestors p = prefixes [] p"

text \<open>
  Path resolution walks down those directories. The first one that is not a directory
  ends the walk: with \<^verbatim>\<open>NotADirectoryError\<close> when a regular file is in its place, with
  \<^verbatim>\<open>FileNotFoundError\<close> when nothing is.
\<close>

fun resolve :: "string list \<Rightarrow> filesystem \<Rightarrow> error option" where
  "resolve [] fs = None"
| "resolve (a # as) fs =
     (if a \<in> dirs fs then resolve as fs
      else if files fs a \<noteq> None then Some NotADirectoryError
      else Some FileNotFoundError)"

text \<open>
  Write permission: truncating an existing file needs it on the file, creating a new one
  needs it on the directory.
\<close>

definition permitted :: "string \<Rightarrow> filesystem \<Rightarrow> bool" where
  "permitted p fs \<longleftrightarrow>
     (if files fs p \<noteq> None then p \<notin> read_only fs else dirname p \<notin> read_only fs)"

text \<open>
  Opening a file for writing and writing an image to it. Any failure leaves the
  filesystem as it was; otherwise the file is created, or truncated and replaced when it
  exists.
\<close>

definition write_file :: "string \<Rightarrow> image \<Rightarrow> filesystem \<Rightarrow> error + filesystem" where
  "write_file p img fs =
     (case resolve (ancestors p) fs of
        Some e \<Rightarrow> Inl e
      | None \<Rightarrow>
          if p \<in> dirs fs then Inl IsADirectoryError
          else if \<not> permitted p fs then Inl PermissionError
          else Inr (fs\<lparr>files := (files fs)(p \<mapsto> img)\<rparr>))"

subsection \<open>Calls and their effect\<close>

datatype call =
    Subplots "rat \<times> rat"
  | Set_facecolor string
  | Add_patch rectangle
  | Text label
  | Arrow arrow
  | Set_xticks "rat list"
  | Set_yticks "rat list"
  | Set_xlim rat rat
  | Set_ylim rat rat
  | Legend legend
  | Title title
  | Figtext label
  | Tight_layout
  | Savefig string nat "string option"

text \<open>
  The state of a run: the current figure, the filesystem, and whether the plotting
  backend can be initialised on this host.
\<close>

record state =
  fig :: figure
  fs :: filesystem
  backend_ok :: bool

fun draw :: "call \<Rightarrow> figure \<Rightarrow> figure" where
  "draw (Subplots sz) f = f\<lparr>figsize := sz\<rparr>"
| "draw (Set_facecolor c) f = f\<lparr>axes_facecolor := Some c\<rparr>"
| "draw (Add_patch r) f = f\<lparr>patches := patches f @ [r]\<rparr>"
| "draw (Text t) f = f\<lparr>texts := texts f @ [t]\<rparr>"
| "draw (Arrow a) f = f\<lparr>arrows := arrows f @ [a]\<rparr>"
| "draw (Set_xticks ts) f = f\<lparr>xticks := Some ts\<rparr>"
| "draw (Set_yticks ts) f = f\<lparr>yticks := Some ts\<rparr>"
| "draw (Set_xlim lo hi) f = f\<lparr>xlim := Some (lo, hi)\<rparr>"
| "draw (Set_ylim lo hi) f = f\<lparr>ylim := Some (lo, hi)\<rparr>"
| "draw (Legend l) f = f\<lparr>axes_legend := Some l\<rparr>"
| "draw (Title t) f = f\<lparr>axes_title := Some t\<rparr>"
| "draw (Figtext t) f = f\<lparr>figtexts := figtexts f @ [t]\<rparr>"
| "draw Tight_layout f = f\<lparr>tight := True\<rparr>"
| "draw (Savefig p dpi bbox) f = f"

text \<open>
  \<^verbatim>\<open>plt.subplots\<close> creates the figure and with it initialises the backend; it raises when
  the backend cannot be loaded. \<^verbatim>\<open>savefig\<close> writes the file. Every other call changes the
  figure only.
\<close>

fun exec :: "call \<Rightarrow> state \<Rightarrow> error + state" where
  "exec (Subplots sz) st =
     (if backend_ok st then Inr (st\<lparr>fig := draw (Subplots sz) (fig st)\<rparr>) else Inl ImportError)"
| "exec (Savefig p dpi bbox) st =
     (case write_file p \<lparr>img_format = format_of p, img_dpi = dpi, img_bbox_inches = bbox,
                          img_figure = fig st\<rparr> (fs st) of
        Inl e \<Rightarrow> Inl e
      | Inr fs' \<Rightarrow> Inr (st\<lparr>fs := fs'\<rparr>))"
| "exec c st = Inr (st\<lparr>fig := draw c (fig st)\<rparr>)"

text \<open>
  Running a sequence of calls. The script handles no exception, so the first error ends
  the run; the result is the error, if any, and the state reached.
\<close>

fun run :: "call list \<Rightarrow> state \<Rightarrow> error option \<times> state" where
  "run [] st = (None, st)"
| "run (c # cs) st = (case exec c st of Inl e \<Rightarrow> (Some e, st) | Inr st' \<Rightarrow> run cs st')"

subsection \<open>The script\<close>

text \<open>The rectangles, under the names the script binds them to.\<close>

definition main_system :: rectangle where
  "main_system = \<lparr>xy = (1 / 2, 1 / 2), width = 11, height = 9, fill = True, alpha = 2 / 10,
     facecolor = ''#e6f2ff'', edgecolor = ''#0066cc'', linewidth = 2, zorder = 1\<rparr>"

definition mirror :: rectangle where
  "mirror = \<lparr>xy = (1, 6), width = 3, height = 2, fill = True, alpha = 7 / 10,
     facecolor = ''#ffcccc'', edgecolor = ''#cc0000'', linewidth = 2, zorder = 2\<rparr>"

definition synthesis :: rectangle where
  "synthesis = \<lparr>xy = (9 / 2, 6), width = 3, height = 2, fill = True, alpha = 7 / 10,
     facecolor = ''#ffffcc'', edgecolor = ''#cccc00'', linewidth = 2, zorder = 2\<rparr>"

definition bridge :: rectangle where
  "bridge = \<lparr>xy = (8, 6), width = 3, height = 2, fill = True, alpha = 7 / 10,
     facecolor = ''#ccffcc'', edgecolor = ''#00cc00'', linewidth = 2, zorder = 2\<rparr>"

definition memory :: rectangle where
  "memory = \<lparr>xy = (1, 7 / 2), width = 5 / 2, height = 3 / 2, fill = True, alpha = 7 / 10,
     facecolor = ''#cce6ff'', edgecolor = ''#0066cc'', linewidth = 2, zorder = 2\<rparr>"

definition ritual :: rectangle where
  "ritual = \<lparr>xy = (4, 7 / 2), width = 5 / 2, height = 3 / 2, fill = True, alpha = 7 / 10,
     facecolor = ''#e6ccff'', edgecolor = ''#6600cc'', linewidth = 2, zorder = 2\<rparr>"

definition mcp :: rectangle where
  "mcp = \<lparr>xy = (7, 7 / 2), width = 5 / 2, height = 3 / 2, fill = True, alpha = 7 / 10,
     facecolor = ''#ffccff'', edgecolor = ''#cc00cc'', linewidth = 2, zorder = 2\<rparr>"

definition voice :: rectangle where
  "voice = \<lparr>xy = (1, 3 / 2), width = 5 / 2, height = 3 / 2, fill = True, alpha = 7 / 10,
     facecolor = ''#ffe6cc'', edgecolor = ''#cc6600'', linewidth = 2, zorder = 2\<rparr>"

definition breath :: rectangle where
  "breath = \<lparr>xy = (4, 3 / 2), width = 5 / 2, height = 3 / 2, fill = True, alpha = 7 / 10,
     facecolor = ''#ccffe6'', edgecolor = ''#00cc66'', linewidth = 2, zorder = 2\<rparr>"

definition ethics :: rectangle where
  "ethics = \<lparr>xy = (7, 3 / 2), width = 5 / 2, height = 3 / 2, fill = True, alpha = 7 / 10,
     facecolor = ''#e6e6e6'', edgecolor = ''#666666'', linewidth = 2, zorder = 2\<rparr>"

text \<open>
  The text calls. All calls on the axes pass \<^verbatim>\<open>ha='center', va='center'\<close>; the component
  names and the container's title also pass \<^verbatim>\<open>fontweight='bold'\<close>.
\<close>

definition bold_text :: "rat \<Rightarrow> rat \<Rightarrow> string \<Rightarrow> rat \<Rightarrow> label" where
  "bold_text x y str sz = \<lparr>pos = (x, y), s = str, fontsize = sz, fontweight = Some ''bold'',
     ha = Some ''center'', va = Some ''center''\<rparr>"

definition plain_text :: "rat \<Rightarrow> rat \<Rightarrow> string \<Rightarrow> rat \<Rightarrow> label" where
  "plain_text x y str sz = \<lparr>pos = (x, y), s = str, fontsize = sz, fontweight = None,
     ha = Some ''center'', va = Some ''center''\<rparr>"

text \<open>
  The arrow calls. All twelve pass the same keywords,
  \<^verbatim>\<open>head_width=0.1, head_length=0.1, fc='black', ec='black', zorder=3\<close>.
\<close>

definition black_arrow :: "rat \<Rightarrow> rat \<Rightarrow> rat \<Rightarrow> rat \<Rightarrow> arrow" where
  "black_arrow x y ddx ddy = \<lparr>start = (x, y), dx = ddx, dy = ddy, head_width = 1 / 10,
     head_length = 1 / 10, fc = ''black'', ec = ''black'', arrow_zorder = 3\<rparr>"

definition legend_elements :: "patch list" where
  "legend_elements =
    [\<lparr>patch_facecolor = ''#ffcccc'', patch_edgecolor = ''#cc0000'', patch_label = ''Core - Mirror''\<rparr>,
     \<lparr>patch_facecolor = ''#ffffcc'', patch_edgecolor = ''#cccc00'', patch_label = ''Core - Synthesis''\<rparr>,
     \<lparr>patch_facecolor = ''#ccffcc'', patch_edgecolor = ''#00cc00'', patch_label = ''Core - Bridge''\<rparr>,
     \<lparr>patch_facecolor = ''#cce6ff'', patch_edgecolor = ''#0066cc'', patch_label = ''Supporting - Memory''\<rparr>,
     \<lparr>patch_facecolor = ''#e6ccff'', patch_edgecolor = ''#6600cc'', patch_label = ''Supporting - Ritual''\<rparr>,
     \<lparr>patch_facecolor = ''#e6e6e6'', patch_edgecolor = ''#666666'', patch_label = ''Supporting - Ethics''\<rparr>]"

definition output_path :: string where
  "output_path = ''/home/ubuntu/diagrams/high_level_architecture.png''"

text \<open>The sections of the script, each under the comment that heads it in the source.\<close>

definition create_figure :: "call list" where
  "create_figure = [Subplots (12, 10), Set_facecolor ''#f5f5f5'']"

definition main_system_container :: "call list" where
  "main_system_container =
    [Add_patch main_system,
     Text (bold_text 6 (92 / 10) ''MeAi Companion System'' 16)]"

definition core_components :: "call list" where
  "core_components =
    [Add_patch mirror,
     Text (bold_text (5 / 2) 7 ''Mirror'' 14),
     Text (plain_text (5 / 2) (13 / 2) ''User Understanding'' 10),
     Add_patch synthesis,
     Text (bold_text 6 7 ''Synthesis'' 14),
     Text (plain_text 6 (13 / 2) ''State Management'' 10),
     Add_patch bridge,
     Text (bold_text (19 / 2) 7 ''Bridge'' 14),
     Text (plain_text (19 / 2) (13 / 2) ''External Connections'' 10)]"

definition supporting_systems :: "call list" where
  "supporting_systems =
    [Add_patch memory,
     Text (bold_text (9 / 4) (17 / 4) ''Memory System'' 12),
     Add_patch ritual,
     Text (bold_text (21 / 4) (17 / 4) ''Ritual Engine'' 12),
     Add_patch mcp,
     Text (bold_text (33 / 4) (17 / 4) ''MCP Client Interface'' 12),
     Add_patch voice,
     Text (bold_text (9 / 4) (9 / 4) ''Voice Engine'' 12),
     Add_patch breath,
     Text (bold_text (21 / 4) (9 / 4) ''Breath System'' 12),
     Add_patch ethics,
     Text (bold_text (33 / 4) (9 / 4) ''Ethics Engine'' 12)]"

definition relationship_arrows :: "call list" where
  "relationship_arrows =
    [Arrow (black_arrow 4 7 (4 / 10) 0),
     Arrow (black_arrow (9 / 2) (68 / 10) (- (4 / 10)) 0),
     Arrow (black_arrow (15 / 2) 7 (4 / 10) 0),
     Arrow (black_arrow 8 (68 / 10) (- (4 / 10)) 0),
     Arrow (black_arrow (5 / 2) 6 0 (- (9 / 10))),
     Arrow (black_arrow (23 / 10) (51 / 10) 0 (9 / 10)),
     Arrow (black_arrow (21 / 4) 6 0 (- (9 / 10))),
     Arrow (black_arrow (33 / 4) 6 0 (- (9 / 10))),
     Arrow (black_arrow (11 / 2) 6 (- (5 / 2)) (- (7 / 2))),
     Arrow (black_arrow (21 / 4) 6 0 (- (29 / 10))),
     Arrow (black_arrow (13 / 2) 6 (3 / 2) (- (7 / 2))),
     Arrow (black_arrow (33 / 4) 3 0 (29 / 10))]"

definition axis_setup :: "call list" where
  "axis_setup = [Set_xticks [], Set_yticks [], Set_xlim 0 12, Set_ylim 0 10]"

definition add_legend :: "call list" where
  "add_legend =
    [Legend \<lparr>handles = legend_elements, loc = ''upper center'', bbox_to_anchor = (1 / 2, 45 / 100),
             fancybox = True, shadow = True, ncol = 2\<rparr>]"

definition title_and_description :: "call list" where
  "title_and_description =
    [Title \<lparr>title_label = ''MeAi System Architecture'', title_fontsize = 18, pad = 20\<rparr>,
     Figtext \<lparr>pos = (1 / 2, 1 / 100),
              s = ''High-level architecture showing core components and supporting systems'',
              fontsize = 10, fontweight = None, ha = Some ''center'', va = None\<rparr>]"

definition save_figure :: "call list" where
  "save_figure = [Tight_layout, Savefig output_path 300 (Some ''tight'')]"

definition script :: "call list" where
  "script = create_figure @ main_system_container @ core_components @ supporting_systems @
     relationship_arrows @ axis_setup @ add_legend @ title_and_description @ save_figure"

text \<open>
  The state in which the script starts: an empty figure, on a host with the given
  filesystem where the backend is or is not available.
\<close>

definition initial :: "bool \<Rightarrow> filesystem \<Rightarrow> state" where
  "initial ok fsys = \<lparr>fig = new_figure, fs = fsys, backend_ok = ok\<rparr>"

text \<open>A run of the whole script.\<close>

definition launch :: "bool \<Rightarrow> filesystem \<Rightarrow> error option \<times> state" where
  "launch ok fsys = run script (initial ok fsys)"

text \<open>The renderer on a host whose plotting backend initialises.\<close>

definition render :: "filesystem \<Rightarrow> error option \<times> state" where
  "render fsys = launch True fsys"

text \<open>The run up to and including the first \<open>n\<close> calls of the script.\<close>

definition after :: "nat \<Rightarrow> bool \<Rightarrow> filesystem \<Rightarrow> error option \<times> state" where
  "after n ok fsys = run (take n script) (initial ok fsys)"

subsection \<open>Reading the result\<close>

text \<open>The figure the script composes: its calls applied once each, in order, to the empty figure.\<close>

definition picture :: figure where
  "picture = fold draw script new_figure"

text \<open>The figure held by the plotting context when the renderer stops, with or without an error.\<close>

definition drawn :: "filesystem \<Rightarrow> figure" where
  "drawn fsys = fig (snd (render fsys))"

text \<open>The figure after the first \<open>n\<close> calls, on a host whose backend initialises.\<close>

definition shown :: "nat \<Rightarrow> filesystem \<Rightarrow> figure" where
  "shown n fsys = fig (snd (after n True fsys))"

text \<open>The filesystem the renderer leaves behind.\<close>

definition left_behind :: "filesystem \<Rightarrow> filesystem" where
  "left_behind fsys = fs (snd (render fsys))"

fun is_savefig :: "call \<Rightarrow> bool" where
  "is_savefig (Savefig p d b) = True"
| "is_savefig c = False"

text \<open>The rectangles a sequence of calls adds, in order.\<close>

fun rectangles_of :: "call list \<Rightarrow> rectangle list" where
  "rectangles_of [] = []"
| "rectangles_of (Add_patch r # cs) = r # rectangles_of cs"
| "rectangles_of (c # cs) = rectangles_of cs"

text \<open>The component rectangles: those of the two sections that follow the container.\<close>

definition components :: "rectangle list" where
  "components = rectangles_of (core_components @ supporting_systems)"

text \<open>The extent of a rectangle lies in the view \<open>[x0, x1] \<times> [y0, y1]\<close> that the axis limits set.\<close>

definition in_view :: "figure \<Rightarrow> rectangle \<Rightarrow> bool" where
  "in_view f r =
     (case (xlim f, ylim f) of
        (Some (x0, x1), Some (y0, y1)) \<Rightarrow>
          0 \<le> width r \<and> 0 \<le> height r \<and>
          x0 \<le> fst (xy r) \<and> fst (xy r) + width r \<le> x1 \<and>
          y0 \<le> snd (xy r) \<and> snd (xy r) + height r \<le> y1
      | _ \<Rightarrow> False)"

text \<open>A point lies in the closed extent of a rectangle, widened by a margin on every side.\<close>

definition near :: "rat \<Rightarrow> rectangle \<Rightarrow> rat \<times> rat \<Rightarrow> bool" where
  "near m r p \<longleftrightarrow>
     fst (xy r) - m \<le> fst p \<and> fst p \<le> fst (xy r) + width r + m \<and>
     snd (xy r) - m \<le> snd p \<and> snd p \<le> snd (xy r) + height r + m"

text \<open>The text labels of a rectangle: those anchored inside its extent, in drawing order.\<close>

definition labels_of :: "figure \<Rightarrow> rectangle \<Rightarrow> label list" where
  "labels_of f r = filter (\<lambda>t. near 0 r (pos t)) (texts f)"

text \<open>
  An arrow's shaft runs from \<open>(x, y)\<close> to \<open>(x + dx, y + dy)\<close>; the head, \<open>head_length\<close> long, is
  drawn beyond the end of the shaft. An arrow is read as going from one rectangle to
  another when its start and the end of its shaft are each within \<open>head_length\<close> of the
  respective rectangle.
\<close>

definition shaft_end :: "arrow \<Rightarrow> rat \<times> rat" where
  "shaft_end a = (fst (start a) + dx a, snd (start a) + dy a)"

definition joins :: "arrow \<Rightarrow> rectangle \<Rightarrow> rectangle \<Rightarrow> bool" where
  "joins a r1 r2 \<longleftrightarrow> near (head_length a) r1 (start a) \<and> near (head_length a) r2 (shaft_end a)"

text \<open>The ordered pairs of component rectangles an arrow goes between.\<close>

definition endpoints :: "arrow \<Rightarrow> (rectangle \<times> rectangle) list" where
  "endpoints a = concat (map (\<lambda>r1. map (\<lambda>r2. (r1, r2)) (filter (joins a r1) components)) components)"

definition opposite :: "arrow \<Rightarrow> arrow \<Rightarrow> bool" where
  "opposite a b \<longleftrightarrow> dx b = - dx a \<and> dy b = - dy a"

text \<open>
  A legend entry is matched to a component by name: the last word of the entry's label
  (\<^verbatim>\<open>Mirror\<close> in \<^verbatim>\<open>Core - Mirror\<close>) begins one of the component's text labels.
\<close>

definition last_word :: "string \<Rightarrow> string" where
  "last_word str = rev (takeWhile (\<lambda>c. c \<noteq> CHR '' '') (rev str))"

definition named_by :: "figure \<Rightarrow> patch \<Rightarrow> rectangle \<Rightarrow> bool" where
  "named_by f h r \<longleftrightarrow>
     list_ex (\<lambda>t. take (length (last_word (patch_label h))) (s t) = last_word (patch_label h))
       (labels_of f r)"


text \<open>
  One arrow goes back along another: it joins a pair of components that the other joins,
  in the reverse order.
\<close>

definition returns :: "arrow \<Rightarrow> arrow \<Rightarrow> bool" where
  "returns a b \<longleftrightarrow> list_ex (\<lambda>(r1, r2). joins b r2 r1) (endpoints a)"

subsection \<open>Example environments\<close>

text \<open>An image left by some earlier program at the output path.\<close>

definition stale_image :: image where
  "stale_image = \<lparr>img_format = ''png'', img_dpi = 72, img_bbox_inches = None,
     img_figure = new_figure\<rparr>"

text \<open>A host where the target directory exists and already holds a file at the output path.\<close>

definition stale_host :: filesystem where
  "stale_host = \<lparr>dirs = {''/home'', ''/home/ubuntu'', ''/home/ubuntu/diagrams''},
     files = [output_path \<mapsto> stale_image], read_only = {}\<rparr>"

text \<open>A host where the target directory exists and is empty.\<close>

definition fresh_host :: filesystem where
  "fresh_host = \<lparr>dirs = {''/home'', ''/home/ubuntu'', ''/home/ubuntu/diagrams''},
     files = Map.empty, read_only = {}\<rparr>"

text \<open>A host without the target directory, with one file elsewhere.\<close>

definition bare_host :: filesystem where
  "bare_host = \<lparr>dirs = {''/home'', ''/home/ubuntu''},
     files = [''/home/ubuntu/notes.png'' \<mapsto> stale_image], read_only = {}\<rparr>"

text \<open>
  A host where the file at the output path exists and the process may not write it, in a
  directory it may write.
\<close>

definition locked_host :: filesystem where
  "locked_host = \<lparr>dirs = {''/home'', ''/home/ubuntu'', ''/home/ubuntu/diagrams''},
     files = [output_path \<mapsto> stale_image], read_only = {output_path}\<rparr>"

text \<open>
  A host where the process may write the file at the output path but not the directory
  that holds it: the file can be replaced, a new one cannot be created.
\<close>

definition sealed_host :: filesystem where
  "sealed_host = \<lparr>dirs = {''/home'', ''/home/ubuntu'', ''/home/ubuntu/diagrams''},
     files = [output_path \<mapsto> stale_image], read_only = {''/home/ubuntu/diagrams''}\<rparr>"

section \<open>Properties\<close>

subsection \<open>Auxiliary facts\<close>

lemmas section_defs = create_figure_def main_system_container_def core_components_def
  supporting_systems_def relationship_arrows_def axis_setup_def add_legend_def
  title_and_description_def save_figure_def

lemmas rectangle_defs = main_system_def mirror_def synthesis_def bridge_def memory_def
  ritual_def mcp_def voice_def breath_def ethics_def

lemma exec_draw:
  "\<not> is_savefig c \<Longrightarrow> backend_ok st \<Longrightarrow> exec c st = Inr (st\<lparr>fig := draw c (fig st)\<rparr>)"
  by (cases c) simp_all

lemma run_draw:
  "\<forall>c \<in> set cs. \<not> is_savefig c \<Longrightarrow> backend_ok st \<Longrightarrow>
     run cs st = (None, st\<lparr>fig := fold draw cs (fig st)\<rparr>)"
  by (induction cs arbitrary: st) (simp_all add: exec_draw)

lemma run_append:
  "run (cs @ ds) st =
     (case run cs st of (None, st') \<Rightarrow> run ds st' | (Some e, st') \<Rightarrow> (Some e, st'))"
  by (induction cs arbitrary: st) (auto split: sum.splits)

lemma script_split: "script = butlast script @ [Savefig output_path 300 (Some ''tight'')]"
  by (simp add: script_def section_defs)

lemma butlast_script_draws: "\<forall>c \<in> set (butlast script). \<not> is_savefig c"
  by (simp add: script_def section_defs)

lemma picture_butlast: "fold draw (butlast script) new_figure = picture"
proof -
  have "picture = fold draw (butlast script @ [Savefig output_path 300 (Some ''tight'')]) new_figure"
    unfolding picture_def using script_split by simp
  then show ?thesis by simp
qed

lemma dirname_output_path: "dirname output_path = ''/home/ubuntu/diagrams''"
  by (simp add: dirname_def output_path_def)

lemma format_of_output_path: "format_of output_path = ''png''"
  by (simp add: format_of_def basename_def output_path_def)

lemma ancestors_output_path:
  "ancestors output_path = [''/home'', ''/home/ubuntu'', ''/home/ubuntu/diagrams'']"
  by (simp add: ancestors_def output_path_def)

lemma resolve_missing:
  assumes "''/home/ubuntu/diagrams'' \<notin> dirs fsys"
  shows "resolve (ancestors output_path) fsys = Some FileNotFoundError \<or>
     resolve (ancestors output_path) fsys = Some NotADirectoryError"
  using assms by (simp add: ancestors_output_path)

lemma resolve_absent:
  assumes "''/home/ubuntu/diagrams'' \<notin> dirs fsys"
    and "\<forall>a \<in> set (ancestors output_path). files fsys a = None"
  shows "resolve (ancestors output_path) fsys = Some FileNotFoundError"
  using assms by (simp add: ancestors_output_path)

lemma resolve_present:
  assumes "{''/home'', ''/home/ubuntu'', ''/home/ubuntu/diagrams''} \<subseteq> dirs fsys"
  shows "resolve (ancestors output_path) fsys = None"
  using assms by (simp add: ancestors_output_path)

text \<open>The whole run, reduced to the one call that can fail.\<close>

lemma render_eq:
  "render fsys =
     (case write_file output_path
             \<lparr>img_format = ''png'', img_dpi = 300, img_bbox_inches = Some ''tight'',
              img_figure = picture\<rparr> fsys of
        Inl e \<Rightarrow> (Some e, \<lparr>fig = picture, fs = fsys, backend_ok = True\<rparr>)
      | Inr fs' \<Rightarrow> (None, \<lparr>fig = picture, fs = fs', backend_ok = True\<rparr>))"
proof -
  have "render fsys =
      run (butlast script @ [Savefig output_path 300 (Some ''tight'')]) (initial True fsys)"
    unfolding render_def launch_def using script_split by simp
  also have "\<dots> = run [Savefig output_path 300 (Some ''tight'')]
      \<lparr>fig = picture, fs = fsys, backend_ok = True\<rparr>"
    by (simp add: run_append run_draw [OF butlast_script_draws] picture_butlast initial_def)
  finally show ?thesis
    by (simp add: format_of_output_path split: sum.splits)
qed

text \<open>The three ways the run can end, by what the file write meets.\<close>

lemma render_unresolved:
  assumes "resolve (ancestors output_path) fsys = Some e"
  shows "render fsys = (Some e, \<lparr>fig = picture, fs = fsys, backend_ok = True\<rparr>)"
  using assms by (simp add: render_eq write_file_def)


lemma render_written:
  assumes "resolve (ancestors output_path) fsys = None"
    and "output_path \<notin> dirs fsys" and "permitted output_path fsys"
  shows "render fsys =
     (None, \<lparr>fig = picture,
             fs = fsys\<lparr>files := (files fsys)(output_path \<mapsto>
               \<lparr>img_format = ''png'', img_dpi = 300, img_bbox_inches = Some ''tight'',
                img_figure = picture\<rparr>)\<rparr>,
             backend_ok = True\<rparr>)"
  using assms by (simp add: render_eq write_file_def)

lemma render_success:
  assumes "fst (render fsys) = None"
  shows "resolve (ancestors output_path) fsys = None \<and> output_path \<notin> dirs fsys \<and>
     permitted output_path fsys"
  using assms by (auto simp: render_eq write_file_def split: option.splits if_splits)

lemma drawn_eq: "drawn fsys = picture"
  by (simp add: drawn_def render_eq split: sum.splits)

lemma picture_patches: "patches picture = main_system # components"
  by (simp add: picture_def script_def section_defs new_figure_def components_def)

lemma components_eq:
  "components = [mirror, synthesis, bridge, memory, ritual, mcp, voice, breath, ethics]"
  by (simp add: components_def section_defs)

lemma picture_limits: "xlim picture = Some (0, 12) \<and> ylim picture = Some (0, 10)"
  by (simp add: picture_def script_def section_defs new_figure_def)


lemma picture_legend: "map_option handles (axes_legend picture) = Some legend_elements"
  by (simp add: picture_def script_def section_defs new_figure_def)

lemma picture_texts:
  "texts picture =
     [bold_text 6 (92 / 10) ''MeAi Companion System'' 16,
      bold_text (5 / 2) 7 ''Mirror'' 14,
      plain_text (5 / 2) (13 / 2) ''User Understanding'' 10,
      bold_text 6 7 ''Synthesis'' 14,
      plain_text 6 (13 / 2) ''State Management'' 10,
      bold_text (19 / 2) 7 ''Bridge'' 14,
      plain_text (19 / 2) (13 / 2) ''External Connections'' 10,
      bold_text (9 / 4) (17 / 4) ''Memory System'' 12,
      bold_text (21 / 4) (17 / 4) ''Ritual Engine'' 12,
      bold_text (33 / 4) (17 / 4) ''MCP Client Interface'' 12,
      bold_text (9 / 4) (9 / 4) ''Voice Engine'' 12,
      bold_text (21 / 4) (9 / 4) ''Breath System'' 12,
      bold_text (33 / 4) (9 / 4) ''Ethics Engine'' 12]"
  by (simp add: picture_def script_def section_defs new_figure_def)

lemma picture_arrows:
  "arrows picture =
     [black_arrow 4 7 (4 / 10) 0,
      black_arrow (9 / 2) (68 / 10) (- (4 / 10)) 0,
      black_arrow (15 / 2) 7 (4 / 10) 0,
      black_arrow 8 (68 / 10) (- (4 / 10)) 0,
      black_arrow (5 / 2) 6 0 (- (9 / 10)),
      black_arrow (23 / 10) (51 / 10) 0 (9 / 10),
      black_arrow (21 / 4) 6 0 (- (9 / 10)),
      black_arrow (33 / 4) 6 0 (- (9 / 10)),
      black_arrow (11 / 2) 6 (- (5 / 2)) (- (7 / 2)),
      black_arrow (21 / 4) 6 0 (- (29 / 10)),
      black_arrow (13 / 2) 6 (3 / 2) (- (7 / 2)),
      black_arrow (33 / 4) 3 0 (29 / 10)]"
  by (simp add: picture_def script_def section_defs new_figure_def)

lemmas geometry_defs = joins_def near_def shaft_end_def black_arrow_def bold_text_def
  plain_text_def

lemma component_labels:
  "map (\<lambda>r. map s (labels_of picture r)) components =
     [[''Mirror'', ''User Understanding''], [''Synthesis'', ''State Management''],
      [''Bridge'', ''External Connections''], [''Memory System''], [''Ritual Engine''],
      [''MCP Client Interface''], [''Voice Engine''], [''Breath System''], [''Ethics Engine'']]"
  by (simp add: components_eq labels_of_def picture_texts geometry_defs rectangle_defs)

lemma legend_names:
  "map (\<lambda>h. filter (named_by picture h) components) legend_elements =
     [[mirror], [synthesis], [bridge], [memory], [ritual], [ethics]]"
  by (simp add: legend_elements_def named_by_def last_word_def components_eq labels_of_def
      picture_texts geometry_defs rectangle_defs)

lemma arrow_endpoints:
  "map endpoints (arrows picture) =
     [[(mirror, synthesis)], [(synthesis, mirror)], [(synthesis, bridge)], [(bridge, synthesis)],
      [(mirror, memory)], [(memory, mirror)], [(synthesis, ritual)], [(bridge, mcp)],
      [(synthesis, voice)], [(synthesis, breath)], [(synthesis, ethics)], [(ethics, bridge)]]"
  by (simp add: picture_arrows endpoints_def components_eq geometry_defs rectangle_defs)

lemma arrows_paired:
  "opposite (arrows picture ! 0) (arrows picture ! 1) \<and>
   returns (arrows picture ! 0) (arrows picture ! 1) \<and>
   opposite (arrows picture ! 2) (arrows picture ! 3) \<and>
   returns (arrows picture ! 2) (arrows picture ! 3) \<and>
   opposite (arrows picture ! 4) (arrows picture ! 5) \<and>
   returns (arrows picture ! 4) (arrows picture ! 5)"
  using arrow_endpoints
  by (simp add: picture_arrows returns_def opposite_def geometry_defs rectangle_defs)

lemma arrows_single:
  "\<forall>a \<in> set (drop 6 (arrows picture)). \<forall>b \<in> set (arrows picture). \<not> returns a b"
  using arrow_endpoints
  by (simp add: picture_arrows returns_def geometry_defs rectangle_defs)

lemma host_dirs:
  "{''/home'', ''/home/ubuntu'', ''/home/ubuntu/diagrams''} \<subseteq> dirs stale_host"
  "{''/home'', ''/home/ubuntu'', ''/home/ubuntu/diagrams''} \<subseteq> dirs fresh_host"
  "{''/home'', ''/home/ubuntu'', ''/home/ubuntu/diagrams''} \<subseteq> dirs locked_host"
  "{''/home'', ''/home/ubuntu'', ''/home/ubuntu/diagrams''} \<subseteq> dirs sealed_host"
  by (simp_all add: stale_host_def fresh_host_def locked_host_def sealed_host_def)

lemma output_path_no_dir:
  "output_path \<notin> dirs stale_host" "output_path \<notin> dirs fresh_host"
  "output_path \<notin> dirs locked_host" "output_path \<notin> dirs sealed_host"
  by (simp_all add: stale_host_def fresh_host_def locked_host_def sealed_host_def
      output_path_def)

lemma render_bare_host:
  "render bare_host =
     (Some FileNotFoundError, \<lparr>fig = picture, fs = bare_host, backend_ok = True\<rparr>)"
  by (rule render_unresolved) (simp add: ancestors_output_path bare_host_def)

subsection \<open>Layout\<close>

text \<open>
  C6. Every rectangle the renderer has drawn, the container and the nine components, has
  its extent \<open>[x, x + w] \<times> [y, y + h]\<close> inside the view \<open>[0, 12] \<times> [0, 10]\<close> that the axis
  limits set.
\<close>

theorem shapes_within_canvas:
  "xlim (drawn fsys) = Some (0, 12) \<and> ylim (drawn fsys) = Some (0, 10) \<and>
   patches (drawn fsys) = main_system # components \<and>
   (\<forall>r \<in> set (patches (drawn fsys)).
      in_view (drawn fsys) r \<and>
      0 \<le> fst (xy r) \<and> fst (xy r) + width r \<le> 12 \<and>
      0 \<le> snd (xy r) \<and> snd (xy r) + height r \<le> 10)"
  by (simp add: drawn_eq picture_patches picture_limits components_eq in_view_def rectangle_defs)

theorem shapes_within_canvas_witness:
  "bridge \<in> set (patches (drawn \<lparr>dirs = {}, files = Map.empty, read_only = {}\<rparr>)) \<and>
   fst (xy bridge) + width bridge = 11 \<and> 11 \<le> (12::rat) \<and>
   snd (xy bridge) + height bridge = 8 \<and> 8 \<le> (10::rat)"
  using shapes_within_canvas [of "\<lparr>dirs = {}, files = Map.empty, read_only = {}\<rparr>"]
  by (simp add: components_eq bridge_def)

text \<open>
  C8. Stacking order has three layers: the container rectangle has zorder 1, each of the
  nine component rectangles has zorder 2, and each arrow has zorder 3. So the container
  is below every component, and every arrow is above every rectangle.
\<close>

theorem stacking_order:
  "patches (drawn fsys) = main_system # components \<and> length components = 9 \<and>
   zorder main_system = 1 \<and>
   (\<forall>r \<in> set components. zorder r = 2) \<and>
   (\<forall>a \<in> set (arrows (drawn fsys)). arrow_zorder a = 3) \<and>
   (\<forall>r \<in> set components. zorder main_system < zorder r) \<and>
   (\<forall>a \<in> set (arrows (drawn fsys)). \<forall>r \<in> set (patches (drawn fsys)). zorder r < arrow_zorder a)"
  by (simp add: drawn_eq picture_patches picture_arrows components_eq rectangle_defs
      black_arrow_def)

theorem stacking_order_witness:
  "ethics \<in> set components \<and> zorder ethics = 2 \<and> zorder main_system < zorder ethics \<and>
   black_arrow (33 / 4) 3 0 (29 / 10) \<in> set (arrows (drawn fresh_host)) \<and>
   arrow_zorder (black_arrow (33 / 4) 3 0 (29 / 10)) = 3 \<and>
   ethics \<in> set (patches (drawn fresh_host)) \<and>
   zorder ethics < arrow_zorder (black_arrow (33 / 4) 3 0 (29 / 10))"
proof -
  have r: "ethics \<in> set components"
    by (simp add: components_eq)
  have a: "black_arrow (33 / 4) 3 0 (29 / 10) \<in> set (arrows (drawn fresh_host))"
    by (simp add: drawn_eq picture_arrows)
  have p: "ethics \<in> set (patches (drawn fresh_host))"
    by (simp add: drawn_eq picture_patches components_eq)
  from r a p stacking_order [of fresh_host] show ?thesis
    by blast
qed

subsection \<open>Components, legend and arrows\<close>

text \<open>
  C2. The renderer draws exactly nine component rectangles after the container: three
  core ones (Mirror, Synthesis, Bridge) and six supporting ones (Memory System, Ritual
  Engine, MCP Client Interface, Voice Engine, Breath System, Ethics Engine). Each has a
  fixed position, size, fill colour and border colour, and one or two text labels
  anchored inside it, the first of which is its name.
\<close>

theorem nine_components:
  "patches (drawn fsys) = main_system # components \<and>
   components = rectangles_of core_components @ rectangles_of supporting_systems \<and>
   rectangles_of core_components = [mirror, synthesis, bridge] \<and>
   rectangles_of supporting_systems = [memory, ritual, mcp, voice, breath, ethics] \<and>
   length components = 9 \<and> distinct components \<and>
   map (\<lambda>r. map s (labels_of (drawn fsys) r)) components =
     [[''Mirror'', ''User Understanding''], [''Synthesis'', ''State Management''],
      [''Bridge'', ''External Connections''], [''Memory System''], [''Ritual Engine''],
      [''MCP Client Interface''], [''Voice Engine''], [''Breath System''], [''Ethics Engine'']] \<and>
   (\<forall>r \<in> set components. length (labels_of (drawn fsys) r) \<in> {1, 2}) \<and>
   map (\<lambda>r. (xy r, width r, height r, facecolor r, edgecolor r)) components =
     [((1, 6), 3, 2, ''#ffcccc'', ''#cc0000''),
      ((9 / 2, 6), 3, 2, ''#ffffcc'', ''#cccc00''),
      ((8, 6), 3, 2, ''#ccffcc'', ''#00cc00''),
      ((1, 7 / 2), 5 / 2, 3 / 2, ''#cce6ff'', ''#0066cc''),
      ((4, 7 / 2), 5 / 2, 3 / 2, ''#e6ccff'', ''#6600cc''),
      ((7, 7 / 2), 5 / 2, 3 / 2, ''#ffccff'', ''#cc00cc''),
      ((1, 3 / 2), 5 / 2, 3 / 2, ''#ffe6cc'', ''#cc6600''),
      ((4, 3 / 2), 5 / 2, 3 / 2, ''#ccffe6'', ''#00cc66''),
      ((7, 3 / 2), 5 / 2, 3 / 2, ''#e6e6e6'', ''#666666'')]"
proof -
  have sections:
    "components = rectangles_of core_components @ rectangles_of supporting_systems \<and>
     rectangles_of core_components = [mirror, synthesis, bridge] \<and>
     rectangles_of supporting_systems = [memory, ritual, mcp, voice, breath, ethics]"
    by (simp add: components_def section_defs)
  have nine: "length components = 9 \<and> distinct components"
    by (simp add: components_eq rectangle_defs)
  have one_or_two: "\<forall>r \<in> set components. length (labels_of picture r) \<in> {1, 2}"
  proof
    fix r
    assume "r \<in> set components"
    then have "map s (labels_of picture r) \<in> set (map (\<lambda>r. map s (labels_of picture r)) components)"
      by simp
    then have "length (map s (labels_of picture r)) \<in> {1, 2}"
      unfolding component_labels by auto
    then show "length (labels_of picture r) \<in> {1, 2}"
      by simp
  qed
  have geometry:
    "map (\<lambda>r. (xy r, width r, height r, facecolor r, edgecolor r)) components =
     [((1, 6), 3, 2, ''#ffcccc'', ''#cc0000''),
      ((9 / 2, 6), 3, 2, ''#ffffcc'', ''#cccc00''),
      ((8, 6), 3, 2, ''#ccffcc'', ''#00cc00''),
      ((1, 7 / 2), 5 / 2, 3 / 2, ''#cce6ff'', ''#0066cc''),
      ((4, 7 / 2), 5 / 2, 3 / 2, ''#e6ccff'', ''#6600cc''),
      ((7, 7 / 2), 5 / 2, 3 / 2, ''#ffccff'', ''#cc00cc''),
      ((1, 3 / 2), 5 / 2, 3 / 2, ''#ffe6cc'', ''#cc6600''),
      ((4, 3 / 2), 5 / 2, 3 / 2, ''#ccffe6'', ''#00cc66''),
      ((7, 3 / 2), 5 / 2, 3 / 2, ''#e6e6e6'', ''#666666'')]"
    by (simp add: components_eq rectangle_defs)
  show ?thesis
    unfolding drawn_eq
    using sections nine one_or_two geometry component_labels picture_patches by blast
qed

theorem nine_components_witness:
  "synthesis \<in> set components \<and> length (labels_of (drawn fresh_host) synthesis) = 2 \<and>
   voice \<in> set components \<and> length (labels_of (drawn fresh_host) voice) = 1"
proof -
  have m: "synthesis \<in> set components" "voice \<in> set components"
    by (simp_all add: components_eq)
  have "length (labels_of (drawn fresh_host) synthesis) \<noteq> 1"
    by (simp add: drawn_eq labels_of_def picture_texts geometry_defs synthesis_def)
  moreover have "length (labels_of (drawn fresh_host) voice) \<noteq> 2"
    by (simp add: drawn_eq labels_of_def picture_texts geometry_defs voice_def)
  ultimately show ?thesis
    using m nine_components [of fresh_host] by auto
qed

text \<open>
  C9. The legend has exactly six entries, labelled Core - Mirror, Core - Synthesis,
  Core - Bridge, Supporting - Memory, Supporting - Ritual and Supporting - Ethics. Each
  entry names exactly one drawn component, and its face and edge colours are those of
  that component's rectangle. The three components MCP Client Interface, Voice Engine and
  Breath System are named by no entry, and no entry has their colours.
\<close>

theorem legend_entries:
  "map_option handles (axes_legend (drawn fsys)) = Some legend_elements \<and>
   map patch_label legend_elements =
     [''Core - Mirror'', ''Core - Synthesis'', ''Core - Bridge'',
      ''Supporting - Memory'', ''Supporting - Ritual'', ''Supporting - Ethics''] \<and>
   map (\<lambda>h. filter (named_by (drawn fsys) h) components) legend_elements =
     [[mirror], [synthesis], [bridge], [memory], [ritual], [ethics]] \<and>
   map (\<lambda>h. (patch_facecolor h, patch_edgecolor h)) legend_elements =
     map (\<lambda>r. (facecolor r, edgecolor r)) [mirror, synthesis, bridge, memory, ritual, ethics] \<and>
   filter (\<lambda>r. \<not> list_ex (\<lambda>h. named_by (drawn fsys) h r) legend_elements) components =
     [mcp, voice, breath] \<and>
   (\<forall>r \<in> set [mcp, voice, breath]. \<forall>h \<in> set legend_elements.
      patch_facecolor h \<noteq> facecolor r \<and> patch_edgecolor h \<noteq> edgecolor r)"
proof -
  have labels:
    "map patch_label legend_elements =
     [''Core - Mirror'', ''Core - Synthesis'', ''Core - Bridge'',
      ''Supporting - Memory'', ''Supporting - Ritual'', ''Supporting - Ethics'']"
    by (simp add: legend_elements_def)
  have colours:
    "map (\<lambda>h. (patch_facecolor h, patch_edgecolor h)) legend_elements =
     map (\<lambda>r. (facecolor r, edgecolor r)) [mirror, synthesis, bridge, memory, ritual, ethics]"
    by (simp add: legend_elements_def rectangle_defs)
  have unnamed:
    "filter (\<lambda>r. \<not> list_ex (\<lambda>h. named_by picture h r) legend_elements) components =
     [mcp, voice, breath]"
    by (simp add: legend_elements_def named_by_def last_word_def components_eq labels_of_def
        picture_texts geometry_defs rectangle_defs)
  have other_colours:
    "\<forall>r \<in> set [mcp, voice, breath]. \<forall>h \<in> set legend_elements.
       patch_facecolor h \<noteq> facecolor r \<and> patch_edgecolor h \<noteq> edgecolor r"
    by (simp add: legend_elements_def rectangle_defs)
  show ?thesis
    unfolding drawn_eq
    using labels colours unnamed other_colours legend_names picture_legend by blast
qed

theorem legend_entries_witness:
  "voice \<in> set [mcp, voice, breath] \<and>
   \<lparr>patch_facecolor = ''#cce6ff'', patch_edgecolor = ''#0066cc'',
     patch_label = ''Supporting - Memory''\<rparr> \<in> set legend_elements \<and>
   ''#cce6ff'' \<noteq> facecolor voice \<and> ''#0066cc'' \<noteq> edgecolor voice"
proof -
  have r: "voice \<in> set [mcp, voice, breath]"
    by simp
  have h: "\<lparr>patch_facecolor = ''#cce6ff'', patch_edgecolor = ''#0066cc'',
     patch_label = ''Supporting - Memory''\<rparr> \<in> set legend_elements"
    by (simp add: legend_elements_def)
  from legend_entries [of fresh_host]
  have "\<forall>r \<in> set [mcp, voice, breath]. \<forall>h \<in> set legend_elements.
      patch_facecolor h \<noteq> facecolor r \<and> patch_edgecolor h \<noteq> edgecolor r"
    by blast
  from this r h
  have "patch_facecolor \<lparr>patch_facecolor = ''#cce6ff'', patch_edgecolor = ''#0066cc'',
          patch_label = ''Supporting - Memory''\<rparr> \<noteq> facecolor voice \<and>
        patch_edgecolor \<lparr>patch_facecolor = ''#cce6ff'', patch_edgecolor = ''#0066cc'',
          patch_label = ''Supporting - Memory''\<rparr> \<noteq> edgecolor voice"
    by blast
  with r h show ?thesis
    by simp
qed

text \<open>
  C10. Exactly twelve arrows are drawn, all with black fill and edge colour and the same
  head geometry (head width 0.1, head length 0.1). The first six form three pairs of
  opposite arrows, between Mirror and Synthesis, Synthesis and Bridge, Mirror and Memory.
  The other six go one way, with no arrow coming back: Synthesis to Ritual, Bridge to MCP,
  Synthesis to Voice, Synthesis to Breath, Synthesis to Ethics, and one arrow that goes
  straight up from Ethics.
\<close>

theorem twelve_arrows:
  "length (arrows (drawn fsys)) = 12 \<and>
   (\<forall>a \<in> set (arrows (drawn fsys)).
      fc a = ''black'' \<and> ec a = ''black'' \<and> head_width a = 1 / 10 \<and> head_length a = 1 / 10) \<and>
   map endpoints (arrows (drawn fsys)) =
     [[(mirror, synthesis)], [(synthesis, mirror)], [(synthesis, bridge)], [(bridge, synthesis)],
      [(mirror, memory)], [(memory, mirror)], [(synthesis, ritual)], [(bridge, mcp)],
      [(synthesis, voice)], [(synthesis, breath)], [(synthesis, ethics)], [(ethics, bridge)]] \<and>
   opposite (arrows (drawn fsys) ! 0) (arrows (drawn fsys) ! 1) \<and>
   returns (arrows (drawn fsys) ! 0) (arrows (drawn fsys) ! 1) \<and>
   opposite (arrows (drawn fsys) ! 2) (arrows (drawn fsys) ! 3) \<and>
   returns (arrows (drawn fsys) ! 2) (arrows (drawn fsys) ! 3) \<and>
   opposite (arrows (drawn fsys) ! 4) (arrows (drawn fsys) ! 5) \<and>
   returns (arrows (drawn fsys) ! 4) (arrows (drawn fsys) ! 5) \<and>
   (\<forall>a \<in> set (drop 6 (arrows (drawn fsys))). \<forall>b \<in> set (arrows (drawn fsys)). \<not> returns a b) \<and>
   dx (last (arrows (drawn fsys))) = 0 \<and> 0 < dy (last (arrows (drawn fsys)))"
proof -
  have count: "length (arrows picture) = 12"
    by (simp add: picture_arrows)
  have black: "\<forall>a \<in> set (arrows picture).
      fc a = ''black'' \<and> ec a = ''black'' \<and> head_width a = 1 / 10 \<and> head_length a = 1 / 10"
    by (simp add: picture_arrows black_arrow_def)
  have up: "dx (last (arrows picture)) = 0 \<and> 0 < dy (last (arrows picture))"
    by (simp add: picture_arrows black_arrow_def)
  show ?thesis
    unfolding drawn_eq
    using count black up arrow_endpoints arrows_paired arrows_single by blast
qed

theorem twelve_arrows_witness:
  "black_arrow (21 / 4) 6 0 (- (29 / 10)) \<in> set (drop 6 (arrows (drawn fresh_host))) \<and>
   black_arrow (33 / 4) 3 0 (29 / 10) \<in> set (arrows (drawn fresh_host)) \<and>
   \<not> returns (black_arrow (21 / 4) 6 0 (- (29 / 10))) (black_arrow (33 / 4) 3 0 (29 / 10)) \<and>
   fc (black_arrow (33 / 4) 3 0 (29 / 10)) = ''black'' \<and>
   head_length (black_arrow (33 / 4) 3 0 (29 / 10)) = 1 / 10"
proof -
  have a: "black_arrow (21 / 4) 6 0 (- (29 / 10)) \<in> set (drop 6 (arrows (drawn fresh_host)))"
    by (simp add: drawn_eq picture_arrows)
  have b: "black_arrow (33 / 4) 3 0 (29 / 10) \<in> set (arrows (drawn fresh_host))"
    by (simp add: drawn_eq picture_arrows)
  from a b twelve_arrows [of fresh_host] show ?thesis
    by blast
qed

subsection \<open>The run and the file\<close>




text \<open>
  C3. Where the directory /home/ubuntu/diagrams does not exist, the renderer ends with the
  error of the file write, which nothing handles, and the filesystem is as it was before
  the run: no file, whole or partial, has been produced. The error is
  \<^verbatim>\<open>FileNotFoundError\<close>, or \<^verbatim>\<open>NotADirectoryError\<close> when a regular file stands where one of
  the directories should be. On a filesystem whose files all lie in existing directories
  there is then no file at the output path.
\<close>

theorem missing_directory_fails:
  assumes "''/home/ubuntu/diagrams'' \<notin> dirs fsys"
  shows "(fst (render fsys) = Some FileNotFoundError \<or>
      fst (render fsys) = Some NotADirectoryError) \<and>
     left_behind fsys = fsys \<and>
     ((\<forall>p. files fsys p \<noteq> None \<longrightarrow> dirname p \<in> dirs fsys) \<longrightarrow>
        files (left_behind fsys) output_path = None) \<and>
     ((\<forall>a \<in> set (ancestors output_path). files fsys a = None) \<longrightarrow>
        fst (render fsys) = Some FileNotFoundError)"
proof -
  from resolve_missing [OF assms] obtain e
    where e: "resolve (ancestors output_path) fsys = Some e"
      and kind: "e = FileNotFoundError \<or> e = NotADirectoryError"
    by blast
  have ended: "render fsys = (Some e, \<lparr>fig = picture, fs = fsys, backend_ok = True\<rparr>)"
    using e by (rule render_unresolved)
  have unchanged: "left_behind fsys = fsys"
    using ended by (simp add: left_behind_def)
  have no_file: "files fsys output_path = None"
    if "\<forall>p. files fsys p \<noteq> None \<longrightarrow> dirname p \<in> dirs fsys"
    using that assms dirname_output_path by metis
  have absent: "fst (render fsys) = Some FileNotFoundError"
    if "\<forall>a \<in> set (ancestors output_path). files fsys a = None"
    using resolve_absent [OF assms that] render_unresolved by simp
  from ended kind unchanged no_file absent show ?thesis
    by auto
qed

theorem missing_directory_fails_witness:
  "''/home/ubuntu/diagrams'' \<notin> dirs bare_host \<and>
   fst (render bare_host) = Some FileNotFoundError \<and> left_behind bare_host = bare_host \<and>
   files (left_behind bare_host) output_path = None"
proof -
  have d: "''/home/ubuntu/diagrams'' \<notin> dirs bare_host"
    by (simp add: bare_host_def)
  have wf: "\<forall>p. files bare_host p \<noteq> None \<longrightarrow> dirname p \<in> dirs bare_host"
    by (simp add: bare_host_def dirname_def)
  have clear: "\<forall>a \<in> set (ancestors output_path). files bare_host a = None"
    by (simp add: ancestors_output_path bare_host_def)
  from missing_directory_fails [OF d] wf clear
  have "fst (render bare_host) = Some FileNotFoundError \<and> left_behind bare_host = bare_host \<and>
     files (left_behind bare_host) output_path = None"
    by blast
  with d show ?thesis
    by blast
qed




text \<open>Facts about the run taken call by call.\<close>

lemma length_script: "length script = 46"
  by (simp add: script_def section_defs)

lemma after_draws:
  assumes "n < length script"
  shows "after n True fsys =
     (None, \<lparr>fig = fold draw (take n script) new_figure, fs = fsys, backend_ok = True\<rparr>)"
proof -
  have "take n script = take n (butlast script)"
    using assms by (simp add: take_butlast)
  then have "\<forall>c \<in> set (take n script). \<not> is_savefig c"
    using butlast_script_draws by (metis in_set_takeD)
  then show ?thesis
    by (simp add: after_def initial_def run_draw)
qed

lemma shown_eq: "n < length script \<Longrightarrow> shown n fsys = fold draw (take n script) new_figure"
  by (simp add: shown_def after_draws)

lemma after_no_backend:
  assumes "0 < n"
  shows "after n False fsys = (Some ImportError, initial False fsys)"
proof -
  from assms obtain m where n: "n = Suc m"
    by (cases n) auto
  have "script = Subplots (12, 10) # tl script"
    by (simp add: script_def section_defs)
  then have "take (Suc m) script = Subplots (12, 10) # take m (tl script)"
    by (metis take_Suc_Cons)
  then show ?thesis
    by (simp add: n after_def initial_def)
qed

text \<open>
  C5. The run is one linear pass over 46 calls, in this order, each stage adding to what
  the stages before it left and changing nothing else: calls 1-2 create the 12 by 10
  drawing surface and set its background; 3-4 draw the container and its title; 5-25 draw
  the nine labelled rectangles; 26-37 draw the twelve arrows; 38-41 strip the ticks and
  set the view bounds; 42 adds the legend; 43-44 add the title and the caption; 45 lays
  the figure out; 46, the last, writes the image. Up to call 45 nothing fails and the
  filesystem is as it was, so the file write is the only I/O and the last operation. The
  figure is complete before it, and the write happens once or not at all: on success the
  filesystem differs at the output path only, on failure it is untouched and nothing is
  retried. Where the backend cannot be initialised the very first call ends the run, with
  nothing drawn and nothing written.
\<close>

theorem linear_pass:
  "length script = 46 \<and>
   shown 2 fsys = new_figure\<lparr>figsize := (12, 10), axes_facecolor := Some ''#f5f5f5''\<rparr> \<and>
   shown 4 fsys = (shown 2 fsys)
     \<lparr>patches := [main_system],
      texts := [bold_text 6 (92 / 10) ''MeAi Companion System'' 16]\<rparr> \<and>
   shown 25 fsys = (shown 4 fsys)
     \<lparr>patches := main_system # components,
      texts := texts (shown 4 fsys) @
        [bold_text (5 / 2) 7 ''Mirror'' 14,
         plain_text (5 / 2) (13 / 2) ''User Understanding'' 10,
         bold_text 6 7 ''Synthesis'' 14,
         plain_text 6 (13 / 2) ''State Management'' 10,
         bold_text (19 / 2) 7 ''Bridge'' 14,
         plain_text (19 / 2) (13 / 2) ''External Connections'' 10,
         bold_text (9 / 4) (17 / 4) ''Memory System'' 12,
         bold_text (21 / 4) (17 / 4) ''Ritual Engine'' 12,
         bold_text (33 / 4) (17 / 4) ''MCP Client Interface'' 12,
         bold_text (9 / 4) (9 / 4) ''Voice Engine'' 12,
         bold_text (21 / 4) (9 / 4) ''Breath System'' 12,
         bold_text (33 / 4) (9 / 4) ''Ethics Engine'' 12]\<rparr> \<and>
   shown 37 fsys = (shown 25 fsys)
     \<lparr>arrows :=
        [black_arrow 4 7 (4 / 10) 0,
         black_arrow (9 / 2) (68 / 10) (- (4 / 10)) 0,
         black_arrow (15 / 2) 7 (4 / 10) 0,
         black_arrow 8 (68 / 10) (- (4 / 10)) 0,
         black_arrow (5 / 2) 6 0 (- (9 / 10)),
         black_arrow (23 / 10) (51 / 10) 0 (9 / 10),
         black_arrow (21 / 4) 6 0 (- (9 / 10)),
         black_arrow (33 / 4) 6 0 (- (9 / 10)),
         black_arrow (11 / 2) 6 (- (5 / 2)) (- (7 / 2)),
         black_arrow (21 / 4) 6 0 (- (29 / 10)),
         black_arrow (13 / 2) 6 (3 / 2) (- (7 / 2)),
         black_arrow (33 / 4) 3 0 (29 / 10)]\<rparr> \<and>
   shown 41 fsys = (shown 37 fsys)
     \<lparr>xticks := Some [], yticks := Some [], xlim := Some (0, 12), ylim := Some (0, 10)\<rparr> \<and>
   shown 42 fsys = (shown 41 fsys)
     \<lparr>axes_legend := Some \<lparr>handles = legend_elements, loc = ''upper center'',
        bbox_to_anchor = (1 / 2, 45 / 100), fancybox = True, shadow = True, ncol = 2\<rparr>\<rparr> \<and>
   shown 44 fsys = (shown 42 fsys)
     \<lparr>axes_title := Some \<lparr>title_label = ''MeAi System Architecture'', title_fontsize = 18,
        pad = 20\<rparr>,
      figtexts := [\<lparr>pos = (1 / 2, 1 / 100),
        s = ''High-level architecture showing core components and supporting systems'',
        fontsize = 10, fontweight = None, ha = Some ''center'', va = None\<rparr>]\<rparr> \<and>
   shown 45 fsys = (shown 44 fsys)\<lparr>tight := True\<rparr> \<and>
   (\<forall>n < 46. fst (after n True fsys) = None \<and> fs (snd (after n True fsys)) = fsys) \<and>
   script ! 45 = Savefig output_path 300 (Some ''tight'') \<and>
   after 46 True fsys = render fsys \<and>
   drawn fsys = shown 45 fsys \<and>
   (fst (render fsys) = None \<longrightarrow>
      left_behind fsys = fsys\<lparr>files := (files fsys)(output_path \<mapsto>
        \<lparr>img_format = ''png'', img_dpi = 300, img_bbox_inches = Some ''tight'',
         img_figure = shown 45 fsys\<rparr>)\<rparr>) \<and>
   (fst (render fsys) \<noteq> None \<longrightarrow> left_behind fsys = fsys) \<and>
   (\<forall>n > 0. after n False fsys = (Some ImportError, initial False fsys))"
proof -
  note unfold = shown_eq length_script script_def section_defs new_figure_def
  have s2: "shown 2 fsys = new_figure\<lparr>figsize := (12, 10), axes_facecolor := Some ''#f5f5f5''\<rparr>"
    by (simp add: unfold)
  have s4: "shown 4 fsys = (shown 2 fsys)
     \<lparr>patches := [main_system],
      texts := [bold_text 6 (92 / 10) ''MeAi Companion System'' 16]\<rparr>"
    by (simp add: unfold)
  have s25: "shown 25 fsys = (shown 4 fsys)
     \<lparr>patches := main_system # components,
      texts := texts (shown 4 fsys) @
        [bold_text (5 / 2) 7 ''Mirror'' 14,
         plain_text (5 / 2) (13 / 2) ''User Understanding'' 10,
         bold_text 6 7 ''Synthesis'' 14,
         plain_text 6 (13 / 2) ''State Management'' 10,
         bold_text (19 / 2) 7 ''Bridge'' 14,
         plain_text (19 / 2) (13 / 2) ''External Connections'' 10,
         bold_text (9 / 4) (17 / 4) ''Memory System'' 12,
         bold_text (21 / 4) (17 / 4) ''Ritual Engine'' 12,
         bold_text (33 / 4) (17 / 4) ''MCP Client Interface'' 12,
         bold_text (9 / 4) (9 / 4) ''Voice Engine'' 12,
         bold_text (21 / 4) (9 / 4) ''Breath System'' 12,
         bold_text (33 / 4) (9 / 4) ''Ethics Engine'' 12]\<rparr>"
    by (simp add: unfold components_eq)
  have s37: "shown 37 fsys = (shown 25 fsys)
     \<lparr>arrows :=
        [black_arrow 4 7 (4 / 10) 0,
         black_arrow (9 / 2) (68 / 10) (- (4 / 10)) 0,
         black_arrow (15 / 2) 7 (4 / 10) 0,
         black_arrow 8 (68 / 10) (- (4 / 10)) 0,
         black_arrow (5 / 2) 6 0 (- (9 / 10)),
         black_arrow (23 / 10) (51 / 10) 0 (9 / 10),
         black_arrow (21 / 4) 6 0 (- (9 / 10)),
         black_arrow (33 / 4) 6 0 (- (9 / 10)),
         black_arrow (11 / 2) 6 (- (5 / 2)) (- (7 / 2)),
         black_arrow (21 / 4) 6 0 (- (29 / 10)),
         black_arrow (13 / 2) 6 (3 / 2) (- (7 / 2)),
         black_arrow (33 / 4) 3 0 (29 / 10)]\<rparr>"
    by (simp add: unfold)
  have s41: "shown 41 fsys = (shown 37 fsys)
     \<lparr>xticks := Some [], yticks := Some [], xlim := Some (0, 12), ylim := Some (0, 10)\<rparr>"
    by (simp add: unfold)
  have s42: "shown 42 fsys = (shown 41 fsys)
     \<lparr>axes_legend := Some \<lparr>handles = legend_elements, loc = ''upper center'',
        bbox_to_anchor = (1 / 2, 45 / 100), fancybox = True, shadow = True, ncol = 2\<rparr>\<rparr>"
    by (simp add: unfold)
  have s44: "shown 44 fsys = (shown 42 fsys)
     \<lparr>axes_title := Some \<lparr>title_label = ''MeAi System Architecture'', title_fontsize = 18,
        pad = 20\<rparr>,
      figtexts := [\<lparr>pos = (1 / 2, 1 / 100),
        s = ''High-level architecture showing core components and supporting systems'',
        fontsize = 10, fontweight = None, ha = Some ''center'', va = None\<rparr>]\<rparr>"
    by (simp add: unfold)
  have s45: "shown 45 fsys = (shown 44 fsys)\<lparr>tight := True\<rparr>"
    by (simp add: unfold)
  have quiet: "\<forall>n < 46. fst (after n True fsys) = None \<and> fs (snd (after n True fsys)) = fsys"
    by (simp add: after_draws length_script)
  have final: "script ! 45 = Savefig output_path 300 (Some ''tight'')"
    by (simp add: script_def section_defs)
  have whole: "after 46 True fsys = render fsys"
    by (simp add: after_def render_def launch_def length_script)
  have "take 45 script = butlast script"
    by (simp add: script_def section_defs)
  then have complete: "drawn fsys = shown 45 fsys"
    by (simp add: drawn_eq shown_eq length_script picture_butlast)
  have written: "fst (render fsys) = None \<longrightarrow>
      left_behind fsys = fsys\<lparr>files := (files fsys)(output_path \<mapsto>
        \<lparr>img_format = ''png'', img_dpi = 300, img_bbox_inches = Some ''tight'',
         img_figure = shown 45 fsys\<rparr>)\<rparr>"
  proof
    assume "fst (render fsys) = None"
    then have "resolve (ancestors output_path) fsys = None" "output_path \<notin> dirs fsys"
      "permitted output_path fsys"
      using render_success by simp_all
    then have "render fsys =
       (None, \<lparr>fig = picture,
               fs = fsys\<lparr>files := (files fsys)(output_path \<mapsto>
                 \<lparr>img_format = ''png'', img_dpi = 300, img_bbox_inches = Some ''tight'',
                  img_figure = picture\<rparr>)\<rparr>,
               backend_ok = True\<rparr>)"
      by (rule render_written)
    moreover have "shown 45 fsys = picture"
      using complete drawn_eq by simp
    ultimately show "left_behind fsys = fsys\<lparr>files := (files fsys)(output_path \<mapsto>
        \<lparr>img_format = ''png'', img_dpi = 300, img_bbox_inches = Some ''tight'',
         img_figure = shown 45 fsys\<rparr>)\<rparr>"
      by (simp add: left_behind_def)
  qed
  have untouched: "fst (render fsys) \<noteq> None \<longrightarrow> left_behind fsys = fsys"
    by (simp add: left_behind_def render_eq write_file_def split: option.splits)
  have no_backend: "\<forall>n > 0. after n False fsys = (Some ImportError, initial False fsys)"
    by (simp add: after_no_backend)
  show ?thesis
    by (intro conjI)
      (fact length_script s2 s4 s25 s37 s41 s42 s44 s45 quiet final whole complete written
        untouched no_backend)+
qed

theorem linear_pass_witness:
  "(45::nat) < 46 \<and> fst (after 45 True bare_host) = None \<and>
   fs (snd (after 45 True bare_host)) = bare_host \<and>
   fst (render bare_host) \<noteq> None \<and> left_behind bare_host = bare_host \<and>
   fst (render fresh_host) = None \<and>
   files (left_behind fresh_host) output_path =
     Some \<lparr>img_format = ''png'', img_dpi = 300, img_bbox_inches = Some ''tight'',
           img_figure = shown 45 fresh_host\<rparr> \<and>
   (0::nat) < 1 \<and> after 1 False fresh_host = (Some ImportError, initial False fresh_host)"
proof -
  have failed: "fst (render bare_host) \<noteq> None"
    by (simp add: render_bare_host)
  have "permitted output_path fresh_host"
    by (simp add: permitted_def fresh_host_def dirname_output_path)
  then have worked: "fst (render fresh_host) = None"
    using render_written resolve_present host_dirs(2) output_path_no_dir(2) by fastforce
  from linear_pass [of bare_host] failed
  have bare: "fst (after 45 True bare_host) = None \<and>
      fs (snd (after 45 True bare_host)) = bare_host \<and> left_behind bare_host = bare_host"
    by simp
  from linear_pass [of fresh_host] worked
  have fresh: "left_behind fresh_host = fresh_host\<lparr>files := (files fresh_host)(output_path \<mapsto>
        \<lparr>img_format = ''png'', img_dpi = 300, img_bbox_inches = Some ''tight'',
         img_figure = shown 45 fresh_host\<rparr>)\<rparr> \<and>
      after 1 False fresh_host = (Some ImportError, initial False fresh_host)"
    by simp
  from bare fresh failed worked show ?thesis
    by simp
qed

end
